theory Spec2Isabelle
  imports Complex_Main "HOL-Library.Monad_Syntax"
begin

section \<open>Conventions of the embedding\<close>

text \<open>
  The particle model \<^verbatim>\<open>StandardParticleIntercalation\<close> (explicit_coupling.py) and the
  degradation models \<^verbatim>\<open>LAM\<close> and \<^verbatim>\<open>SEI\<close> (equations.py) are embedded over the real
  numbers: a Python float is a \<open>real\<close>, so rounding is not modelled. A Python
  exception is a value of \<open>error\<close> on the left of a sum. A quantity that real
  arithmetic leaves undefined (a quotient by zero, a negative base raised to a
  fractional power) is \<open>None\<close>.
\<close>

datatype error = AssertionError | ZeroDivisionError | ValueError | IndexError

definition bindE :: "error + 'a \<Rightarrow> ('a \<Rightarrow> error + 'b) \<Rightarrow> error + 'b" where
  "bindE m f = (case m of Inl e \<Rightarrow> Inl e | Inr x \<Rightarrow> f x)"

fun mapE :: "('a \<Rightarrow> error + 'b) \<Rightarrow> 'a list \<Rightarrow> error + 'b list" where
  "mapE f [] = Inr []"
| "mapE f (x # xs) =
     (case f x of Inl e \<Rightarrow> Inl e
      | Inr y \<Rightarrow> (case mapE f xs of Inl e \<Rightarrow> Inl e | Inr ys \<Rightarrow> Inr (y # ys)))"

text \<open>The quotient \<^verbatim>\<open>a / b\<close> of two floats or of the pointwise values of two symbolic
  expressions: it has no real value when \<open>b\<close> is zero.\<close>

definition quotient :: "real \<Rightarrow> real \<Rightarrow> real option" where
  "quotient a b = (if b = 0 then None else Some (a / b))"

text \<open>
  Pointwise value of the power \<^verbatim>\<open>x ** y\<close> with a real exponent: defined for a
  positive base, for base zero with a non-negative exponent, and for a negative base
  with an integral exponent.
\<close>

definition real_power :: "real \<Rightarrow> real \<Rightarrow> real option" where
  "real_power x y =
     (if 0 < x then Some (x powr y)
      else if x = 0 then (if 0 < y then Some 0 else if y = 0 then Some 1 else None)
      else if y = of_int \<lfloor>y\<rfloor> then Some (x powi \<lfloor>y\<rfloor>) else None)"

section \<open>The particle state store (explicit_coupling.py)\<close>

text \<open>
  An active material, with the parameters that the embedded functions read. The class
  is declared outside the excerpt; \<open>c_s_ini\<close> is the configured initial concentration,
  a float, and \<open>U\<close> the open-circuit potential as a function of the stoichiometry.
\<close>

record material =
  c_s_ini :: real
  c_s_max :: real
  k_0 :: real
  k_0_Ea :: real
  k_0_Tref :: real
  U :: "real \<Rightarrow> real"
  critical_stress :: real

text \<open>
  \<^verbatim>\<open>build_db\<close> allocates the three generations with one shape,
  \<^verbatim>\<open>(nodes, len(self.particles), len(self.dofs))\<close>, and no operation changes a shape
  afterwards: every write is a slice assignment or a \<^verbatim>\<open>fill\<close>. An array is therefore
  its index function, read at \<open>node\<close>, \<open>material\<close>, \<open>dof\<close>, and the shape is kept once
  in the store: \<open>nodes\<close>, the length of \<open>particles\<close>, and \<open>dofs\<close>. Only indices inside
  the shape are entries of the array.
\<close>

type_synonym db = "nat \<Rightarrow> nat \<Rightarrow> nat \<Rightarrow> real"

record store =
  particles :: "material list"
  nodes :: nat
  dofs :: nat
  c_s_0_db :: db
  c_s_1_db :: db
  c_s__1_db :: db

text \<open>A list element handed to \<^verbatim>\<open>initial_guess\<close>: a float, a dolfin \<^verbatim>\<open>Constant\<close>
  (with the value \<^verbatim>\<open>values()[0]\<close>), or an object of another type.\<close>

datatype pyval = PyFloat real | PyConstant real | PyOther

text \<open>\<^verbatim>\<open>a[:, i, :].fill(c)\<close>\<close>

definition fill_material :: "db \<Rightarrow> nat \<Rightarrow> real \<Rightarrow> db" where
  "fill_material a i c = (\<lambda>n j d. if j = i then c else a n j d)"

text \<open>
  The loop of \<^verbatim>\<open>initial_guess\<close> over \<^verbatim>\<open>enumerate(c_s_ini)\<close>: a \<^verbatim>\<open>Constant\<close> is replaced
  by its value, anything that is then not a float fails the assertion, and the three
  generations are filled at material \<open>i\<close>. An index beyond the material axis raises.
\<close>

fun fill_loop :: "store \<Rightarrow> nat \<Rightarrow> pyval list \<Rightarrow> error + store" where
  "fill_loop s i [] = Inr s"
| "fill_loop s i (v # vs) =
     (case (case v of PyConstant c \<Rightarrow> PyFloat c | w \<Rightarrow> w) of
        PyFloat c \<Rightarrow>
          if i < length (particles s)
          then fill_loop (s\<lparr>c_s_0_db := fill_material (c_s_0_db s) i c,
                            c_s_1_db := fill_material (c_s_1_db s) i c,
                            c_s__1_db := fill_material (c_s__1_db s) i c\<rparr>) (Suc i) vs
          else Inl IndexError
      | _ \<Rightarrow> Inl AssertionError)"

definition initial_guess :: "store \<Rightarrow> pyval list \<Rightarrow> error + store" where
  "initial_guess s c_s_ini_list =
     (if c_s_ini_list \<noteq> []
      then (if length c_s_ini_list = length (particles s)
            then fill_loop s 0 c_s_ini_list
            else Inl AssertionError)
      else fill_loop s 0 (map (\<lambda>material. PyFloat (c_s_ini material)) (particles s)))"

text \<open>\<^verbatim>\<open>advance_problem\<close>: two slice assignments, in this order.\<close>

definition advance_problem :: "store \<Rightarrow> store" where
  "advance_problem s =
     (let s1 = s\<lparr>c_s__1_db := c_s_0_db s\<rparr>;
          s2 = s1\<lparr>c_s_0_db := c_s_1_db s1\<rparr>
      in s2)"

text \<open>\<^verbatim>\<open>numpy.linalg.norm\<close> of a three-dimensional array: the root of the sum of the
  squares of all entries.\<close>

definition norm_db :: "nat \<Rightarrow> nat \<Rightarrow> nat \<Rightarrow> db \<Rightarrow> real" where
  "norm_db n_nodes n_mat n_dofs e =
     sqrt (\<Sum>n \<leftarrow> [0..<n_nodes]. \<Sum>i \<leftarrow> [0..<n_mat]. \<Sum>d \<leftarrow> [0..<n_dofs]. \<bar>e n i d\<bar>\<^sup>2)"

text \<open>\<^verbatim>\<open>get_time_filter_error\<close>: \<^verbatim>\<open>nu\<close> and \<^verbatim>\<open>tau\<close> are Python floats, and the scalar
  quotients \<^verbatim>\<open>1/(1+tau)\<close> and \<^verbatim>\<open>tau/(1+tau)\<close> raise when \<^verbatim>\<open>1 + tau\<close> is zero.\<close>

definition get_time_filter_error :: "store \<Rightarrow> real \<Rightarrow> real \<Rightarrow> error + real" where
  "get_time_filter_error s nu tau =
     (if 1 + tau = 0 then Inl ZeroDivisionError
      else Inr (norm_db (nodes s) (length (particles s)) (dofs s)
             (\<lambda>n i d. nu * (1 / (1 + tau) * c_s_1_db s n i d - c_s_0_db s n i d
                            + tau / (1 + tau) * c_s__1_db s n i d))))"

text \<open>The residual as the specification words it, with the current generation
  \<open>c_s_1_db\<close>, the previous \<open>c_s_0_db\<close> and the twice-previous \<open>c_s__1_db\<close>.\<close>

definition spec_time_filter_error :: "store \<Rightarrow> real \<Rightarrow> real \<Rightarrow> real" where
  "spec_time_filter_error s nu tau =
     norm_db (nodes s) (length (particles s)) (dofs s)
       (\<lambda>n i d. nu * (c_s_0_db s n i d / (1 + tau) - c_s_1_db s n i d
                      + tau * c_s__1_db s n i d / (1 + tau)))"




text \<open>The number that a list element stands for, and whether it stands for one.\<close>

fun float_of :: "pyval \<Rightarrow> real" where
  "float_of (PyFloat c) = c"
| "float_of (PyConstant c) = c"
| "float_of PyOther = 0"

fun is_number :: "pyval \<Rightarrow> bool" where
  "is_number PyOther = False"
| "is_number _ = True"

text \<open>A store with one node, one material and one dof, for concrete evaluations.\<close>

definition unit_material :: material where
  "unit_material = \<lparr>c_s_ini = 1, c_s_max = 2, k_0 = 1, k_0_Ea = 0, k_0_Tref = 1,
     U = (\<lambda>x. 0), critical_stress = 1\<rparr>"

definition const_db :: "real \<Rightarrow> db" where
  "const_db c = (\<lambda>n i d. c)"

definition unit_store :: "real \<Rightarrow> real \<Rightarrow> real \<Rightarrow> store" where
  "unit_store prev cur prevprev =
     \<lparr>particles = [unit_material], nodes = 1, dofs = 1,
      c_s_0_db = const_db prev, c_s_1_db = const_db cur, c_s__1_db = const_db prevprev\<rparr>"

section \<open>The reaction flux (explicit_coupling.py)\<close>

text \<open>
  \<^verbatim>\<open>_j_li\<close>, read pointwise: every argument is the value of the symbolic expression at
  one point. The primed parameters are those of the source without the prime. In
  \<^verbatim>\<open>-alpha*F*eta/(R*T)\<close> the sign belongs to \<^verbatim>\<open>alpha\<close>, and the product \<^verbatim>\<open>i_0\<close> is
  built from left to right.
\<close>

definition j_li :: "real \<Rightarrow> real \<Rightarrow> real \<Rightarrow> real \<Rightarrow> real \<Rightarrow> real \<Rightarrow> real \<Rightarrow> real \<Rightarrow> real \<Rightarrow> real
    \<Rightarrow> (real \<Rightarrow> real) \<Rightarrow> real \<Rightarrow> real option" where
  "j_li c_s c_e phi T k_0' k_0_Ea' k_0_Tref' alpha F R OCV c_s_max' =
     do {
       x \<leftarrow> quotient c_s c_s_max';
       let eta = phi - OCV x;
       a \<leftarrow> quotient (alpha * F * eta) (R * T);
       b \<leftarrow> quotient (- alpha * F * eta) (R * T);
       let BV = exp a - exp b;
       q \<leftarrow> quotient k_0_Ea' R;
       r0 \<leftarrow> quotient 1 k_0_Tref';
       r1 \<leftarrow> quotient 1 T;
       let k_0_eff = k_0' * exp (q * (r0 - r1));
       p_e \<leftarrow> real_power c_e alpha;
       p_m \<leftarrow> real_power (c_s_max' - c_s) alpha;
       p_s \<leftarrow> real_power c_s alpha;
       let i_0 = k_0_eff * p_e * p_m * p_s;
       Some (i_0 * BV)
     }"

text \<open>The call in \<^verbatim>\<open>c_s_equation\<close>, which takes the constants from the material.\<close>

definition j_li_material :: "material \<Rightarrow> real \<Rightarrow> real \<Rightarrow> real \<Rightarrow> real \<Rightarrow> real \<Rightarrow> real \<Rightarrow> real \<Rightarrow> real option" where
  "j_li_material material c_s c_e phi T alpha F R =
     j_li c_s c_e phi T (k_0 material) (k_0_Ea material) (k_0_Tref material) alpha F R
       (U material) (c_s_max material)"

text \<open>
  The rate law in the words of the specification: the overpotential
  \<open>eta = phi - OCV(c_s / c_max)\<close>, the rate constant
  \<open>k_eff = k0 * exp(Ea / R * (1 / Tref - 1 / T))\<close>, the exchange current
  \<open>i0 = k_eff * c_e^alpha * (c_max - c_s)^alpha * c_s^alpha\<close>, and the flux
  \<open>j = i0 * (exp(alpha F eta / RT) - exp(- alpha F eta / RT))\<close>.
\<close>

definition spec_eta :: "material \<Rightarrow> real \<Rightarrow> real \<Rightarrow> real option" where
  "spec_eta material c_s phi = map_option (\<lambda>x. phi - U material x) (quotient c_s (c_s_max material))"

definition spec_k_eff :: "material \<Rightarrow> real \<Rightarrow> real \<Rightarrow> real option" where
  "spec_k_eff material T R =
     do {
       q \<leftarrow> quotient (k_0_Ea material) R;
       r0 \<leftarrow> quotient 1 (k_0_Tref material);
       r1 \<leftarrow> quotient 1 T;
       Some (k_0 material * exp (q * (r0 - r1)))
     }"

definition spec_i0 :: "material \<Rightarrow> real \<Rightarrow> real \<Rightarrow> real \<Rightarrow> real \<Rightarrow> real \<Rightarrow> real option" where
  "spec_i0 material c_s c_e T alpha R =
     do {
       k_eff \<leftarrow> spec_k_eff material T R;
       p_e \<leftarrow> real_power c_e alpha;
       p_m \<leftarrow> real_power (c_s_max material - c_s) alpha;
       p_s \<leftarrow> real_power c_s alpha;
       Some (k_eff * p_e * p_m * p_s)
     }"

definition spec_j_li :: "material \<Rightarrow> real \<Rightarrow> real \<Rightarrow> real \<Rightarrow> real \<Rightarrow> real \<Rightarrow> real \<Rightarrow> real \<Rightarrow> real option" where
  "spec_j_li material c_s c_e phi T alpha F R =
     do {
       i0 \<leftarrow> spec_i0 material c_s c_e T alpha R;
       eta \<leftarrow> spec_eta material c_s phi;
       w \<leftarrow> quotient (alpha * F * eta) (R * T);
       Some (i0 * (exp w - exp (- w)))
     }"

section \<open>Loss of active material (equations.py, class LAM)\<close>

text \<open>The parameters \<^verbatim>\<open>self.LAM.model\<close>, \<^verbatim>\<open>self.LAM.beta\<close> and \<^verbatim>\<open>self.LAM.m\<close>.\<close>

record lam_params =
  LAM_model :: string
  LAM_beta :: real
  LAM_m :: real

text \<open>
  The value that \<^verbatim>\<open>eps_s_variation\<close> builds for one material in the stress model, at
  one node: \<^verbatim>\<open>sigma_h_am\<close> is the stress where it is positive and 0 elsewhere, and
  \<^verbatim>\<open>value\<close> starts at 0 and has the product subtracted.
\<close>

definition eps_s_value :: "lam_params \<Rightarrow> material \<Rightarrow> real \<Rightarrow> real \<Rightarrow> real option" where
  "eps_s_value LAM am sigma_h_i delta_t =
     do {
       let sigma_h_am = (if sigma_h_i > 0 then sigma_h_i else 0);
       q \<leftarrow> quotient sigma_h_am (critical_stress am);
       p \<leftarrow> real_power q (LAM_m LAM);
       Some (0 - delta_t * LAM_beta LAM * p)
     }"

text \<open>
  \<^verbatim>\<open>eps_s_variation\<close>: the loop over \<^verbatim>\<open>enumerate(self.electrode.active_material)\<close>, with
  \<open>sigma_h\<close> the list of the stresses of the materials at one node. \<^verbatim>\<open>sigma_h[i]\<close> is
  read in the stress model only, and raises beyond the end of the list.
\<close>

definition eps_s_variation :: "lam_params \<Rightarrow> material list \<Rightarrow> real list \<Rightarrow> real
    \<Rightarrow> error + real option list" where
  "eps_s_variation LAM active_material sigma_h delta_t =
     mapE (\<lambda>(i, am).
         if LAM_model LAM = ''stress''
         then (if i < length sigma_h
               then Inr (eps_s_value LAM am (sigma_h ! i) delta_t)
               else Inl IndexError)
         else Inr (Some 0))
       (enumerate 0 active_material)"

text \<open>Parameters for concrete evaluations.\<close>

definition unit_LAM :: lam_params where
  "unit_LAM = \<lparr>LAM_model = ''stress'', LAM_beta = 1, LAM_m = 1\<rparr>"

definition zero_stress_material :: material where
  "zero_stress_material = unit_material\<lparr>critical_stress := 0\<rparr>"

section \<open>SEI growth (equations.py, class SEI)\<close>

text \<open>The parameters of \<^verbatim>\<open>self.SEI\<close> that the embedded residuals read: \<^verbatim>\<open>M\<close>, \<^verbatim>\<open>rho\<close>,
  \<^verbatim>\<open>beta\<close> and \<^verbatim>\<open>U\<close>.\<close>

record sei_params =
  sei_M :: real
  sei_rho :: real
  sei_beta :: real
  sei_U :: real

text \<open>
  Modelled from the spec: the time scheme \<^verbatim>\<open>DT\<close> and its method \<^verbatim>\<open>DT.dt\<close> are not in
  the excerpt. The specification discretises the growth law by implicit Euler, so
  \<^verbatim>\<open>DT.dt(f_0, f_1)\<close> is the backward difference quotient over the step \<open>delta_t\<close>.
\<close>

record time_scheme =
  DT_delta_t :: real

definition DT_dt :: "time_scheme \<Rightarrow> real \<Rightarrow> real \<Rightarrow> real option" where
  "DT_dt DT f_0 f_1 = quotient (f_1 - f_0) (DT_delta_t DT)"

text \<open>
  A weak form \<^verbatim>\<open>c * test * dx\<close> is represented by its coefficient \<open>c\<close> at one node;
  the form vanishes for every test function when the coefficient vanishes at every
  node. \<^verbatim>\<open>SEI_overpotential\<close> and the coefficient of the residual \<^verbatim>\<open>j_SEI\<close>:
\<close>

definition SEI_overpotential :: "real \<Rightarrow> real \<Rightarrow> real \<Rightarrow> real \<Rightarrow> sei_params \<Rightarrow> real" where
  "SEI_overpotential phi_s phi_e J G_film SEI = phi_s - phi_e - sei_U SEI - J * G_film"

definition SEI_j_SEI :: "real \<Rightarrow> real \<Rightarrow> real \<Rightarrow> real \<Rightarrow> real \<Rightarrow> real \<Rightarrow> real \<Rightarrow> sei_params
    \<Rightarrow> real \<Rightarrow> real \<Rightarrow> real option" where
  "SEI_j_SEI j_SEI i_0s phi_s phi_e T J G_film SEI F R =
     do {
       let eta = SEI_overpotential phi_s phi_e J G_film SEI;
       a \<leftarrow> quotient (sei_beta SEI * F) R;
       b \<leftarrow> quotient (- a * eta) T;
       Some (j_SEI + i_0s * exp b)
     }"

text \<open>The coefficient of \<^verbatim>\<open>delta_growth\<close>; \<^verbatim>\<open>DT\<close> is \<open>None\<close> for the stationary
  problem, where \<^verbatim>\<open>if DT\<close> fails.\<close>

definition delta_growth :: "time_scheme option \<Rightarrow> real \<Rightarrow> real \<Rightarrow> real \<Rightarrow> sei_params \<Rightarrow> real
    \<Rightarrow> real option" where
  "delta_growth DT delta_0 delta_1 j_SEI SEI F =
     (case DT of
        Some scheme \<Rightarrow>
          do {
            d \<leftarrow> DT_dt scheme delta_0 delta_1;
            q \<leftarrow> quotient (j_SEI * sei_M SEI) (2 * F * sei_rho SEI);
            Some (d + q)
          }
      | None \<Rightarrow> Some (delta_0 - delta_1))"

text \<open>Parameters for concrete evaluations.\<close>

definition unit_SEI :: sei_params where
  "unit_SEI = \<lparr>sei_M = 1, sei_rho = 1, sei_beta = 1, sei_U = 0\<rparr>"

definition unit_DT :: time_scheme where
  "unit_DT = \<lparr>DT_delta_t = 1\<rparr>"

section \<open>The spectral operators of the SEI model (equations.py)\<close>

text \<open>A loop whose body can raise: the first error ends it.\<close>

fun foldE :: "('s \<Rightarrow> 'a \<Rightarrow> error + 's) \<Rightarrow> 's \<Rightarrow> 'a list \<Rightarrow> error + 's" where
  "foldE step s [] = Inr s"
| "foldE step s (x # xs) = (case step s x of Inl e \<Rightarrow> Inl e | Inr s' \<Rightarrow> foldE step s' xs)"

text \<open>\<^verbatim>\<open>xs[i]\<close> for an index that is not negative.\<close>

definition nth_py :: "'a list \<Rightarrow> nat \<Rightarrow> error + 'a" where
  "nth_py xs i = (if i < length xs then Inr (xs ! i) else Inl IndexError)"

text \<open>
  A polynomial is the list of its coefficients, lowest degree first, as in
  \<^verbatim>\<open>numpy.polynomial.polynomial\<close>, whose \<^verbatim>\<open>polyval\<close>, \<^verbatim>\<open>polymul\<close> and \<^verbatim>\<open>polyint\<close> are the
  ones in scope (the later of the two star imports).
\<close>

type_synonym poly = "real list"

type_synonym matrix = "real list list"

text \<open>\<^verbatim>\<open>trimseq\<close> removes trailing zeros and keeps at least the first coefficient;
  \<^verbatim>\<open>numpy.convolve\<close> is the full discrete convolution.\<close>

definition trimseq :: "poly \<Rightarrow> poly" where
  "trimseq seq = (if seq = [] then [] else hd seq # rev (dropWhile (\<lambda>c. c = 0) (rev (tl seq))))"

definition convolve :: "poly \<Rightarrow> poly \<Rightarrow> poly" where
  "convolve p q =
     map (\<lambda>k. \<Sum>i \<leftarrow> [0..<length p]. if i \<le> k \<and> k - i < length q then p ! i * q ! (k - i) else 0)
       [0..<length p + length q - 1]"

text \<open>
  \<^verbatim>\<open>polyval(x, c)\<close> is Horner's scheme from the last coefficient and reads \<^verbatim>\<open>c[-1]\<close>
  first. \<^verbatim>\<open>polymul\<close> refuses an empty coefficient array, trims both factors and the
  product. \<^verbatim>\<open>polyint(c)\<close> integrates once from 0 with integration constant 0, and
  leaves the zero polynomial \<^verbatim>\<open>[0]\<close> as it is.
\<close>

definition polyval :: "real \<Rightarrow> poly \<Rightarrow> error + real" where
  "polyval x c = (if c = [] then Inl IndexError else Inr (foldr (\<lambda>a c0. a + c0 * x) c 0))"

definition polymul :: "poly \<Rightarrow> poly \<Rightarrow> error + poly" where
  "polymul c1 c2 =
     (if c1 = [] \<or> c2 = [] then Inl ValueError
      else Inr (trimseq (convolve (trimseq c1) (trimseq c2))))"

definition polyint :: "poly \<Rightarrow> error + poly" where
  "polyint c =
     (if c = [] then Inl IndexError
      else if c = [0] then Inr c
      else Inr (0 # map (\<lambda>j. c ! j / real (j + 1)) [0..<length c]))"

text \<open>
  The object \<^verbatim>\<open>Lagrange(order)\<close> of \<^verbatim>\<open>cideMOD.numerics.polynomials\<close> is outside the
  excerpt. It is taken as a parameter: the lists \<^verbatim>\<open>f\<close>, \<^verbatim>\<open>df\<close>, \<^verbatim>\<open>xf\<close> and \<^verbatim>\<open>xdf\<close> of
  polynomials that the constructor copies from it.
\<close>

record lagrange_basis =
  poly_f :: "poly list"
  poly_df :: "poly list"
  poly_xf :: "poly list"
  poly_xdf :: "poly list"

text \<open>The local arrays of \<^verbatim>\<open>build_matrix\<close>, each allocated by \<^verbatim>\<open>numpy.zeros\<close>.\<close>

record build_state =
  mat_J :: matrix
  mat_H :: matrix
  mat_K :: matrix
  mat_L :: matrix
  mat_M :: matrix
  mat_N :: matrix
  vec_P :: "real list"

definition zeros :: "nat \<Rightarrow> nat \<Rightarrow> matrix" where
  "zeros r c = replicate r (replicate c 0)"

text \<open>\<^verbatim>\<open>A[i, j] = v\<close>; \<^verbatim>\<open>build_matrix\<close> only writes inside the arrays.\<close>

definition set_entry :: "matrix \<Rightarrow> nat \<Rightarrow> nat \<Rightarrow> real \<Rightarrow> matrix" where
  "set_entry A i j v = A[i := (A ! i)[j := v]]"

text \<open>\<^verbatim>\<open>polymul(ps[i], qs[j])\<close>\<close>

definition poly_prod :: "poly list \<Rightarrow> nat \<Rightarrow> poly list \<Rightarrow> nat \<Rightarrow> error + poly" where
  "poly_prod ps i qs j = bindE (nth_py ps i) (\<lambda>p. bindE (nth_py qs j) (\<lambda>q. polymul p q))"

text \<open>The body of the loop over \<open>j\<close>: the entries of \<^verbatim>\<open>J\<close>, \<^verbatim>\<open>H\<close>, \<^verbatim>\<open>K\<close>, \<^verbatim>\<open>L\<close>, \<^verbatim>\<open>M\<close>
  and \<^verbatim>\<open>N\<close> at \<open>(i, j)\<close>, in this order.\<close>

definition inner_step :: "lagrange_basis \<Rightarrow> nat \<Rightarrow> build_state \<Rightarrow> nat \<Rightarrow> error + build_state" where
  "inner_step poly i st j =
     bindE (bindE (poly_prod (poly_f poly) i (poly_f poly) j) (polyval 0)) (\<lambda>vJ.
     bindE (bindE (poly_prod (poly_df poly) i (poly_f poly) j) (polyval 1)) (\<lambda>vH.
     bindE (bindE (bindE (poly_prod (poly_f poly) i (poly_f poly) j) polyint) (polyval 1)) (\<lambda>vK.
     bindE (bindE (bindE (poly_prod (poly_df poly) i (poly_f poly) j) polyint) (polyval 1)) (\<lambda>vL.
     bindE (bindE (bindE (poly_prod (poly_xdf poly) i (poly_f poly) j) polyint) (polyval 1)) (\<lambda>vM.
     bindE (bindE (bindE (poly_prod (poly_df poly) i (poly_df poly) j) polyint) (polyval 1)) (\<lambda>vN.
       Inr (st\<lparr>mat_J := set_entry (mat_J st) i j vJ,
               mat_H := set_entry (mat_H st) i j vH,
               mat_K := set_entry (mat_K st) i j vK,
               mat_L := set_entry (mat_L st) i j vL,
               mat_M := set_entry (mat_M st) i j vM,
               mat_N := set_entry (mat_N st) i j vN\<rparr>)))))))"

text \<open>The body of the loop over \<open>i\<close>: \<^verbatim>\<open>P[i]\<close>, then the loop over \<open>j\<close>.\<close>

definition outer_step :: "lagrange_basis \<Rightarrow> nat \<Rightarrow> build_state \<Rightarrow> nat \<Rightarrow> error + build_state" where
  "outer_step poly n st i =
     bindE (bindE (nth_py (poly_f poly) i) (polyval 0)) (\<lambda>vP.
       foldE (inner_step poly i) (st\<lparr>vec_P := (vec_P st)[i := vP]\<rparr>) [0..<n])"

text \<open>The attributes \<^verbatim>\<open>self.D\<close>, \<^verbatim>\<open>self.K1\<close>, \<^verbatim>\<open>self.K2\<close> and \<^verbatim>\<open>self.P\<close>.\<close>

record spectral_operators =
  op_D :: matrix
  op_K1 :: matrix
  op_K2 :: matrix
  op_P :: "real list"

text \<open>Entrywise difference and sum of arrays of one shape, and the slice
  \<^verbatim>\<open>A[:, 0:-1]\<close>, which drops the last column.\<close>

definition mat_sub :: "matrix \<Rightarrow> matrix \<Rightarrow> matrix" where
  "mat_sub A B = map2 (map2 (-)) A B"

definition mat_add :: "matrix \<Rightarrow> matrix \<Rightarrow> matrix" where
  "mat_add A B = map2 (map2 (+)) A B"

definition drop_last_column :: "matrix \<Rightarrow> matrix" where
  "drop_last_column A = map butlast A"

text \<open>
  \<^verbatim>\<open>build_matrix\<close>. \<^verbatim>\<open>order\<close> is a Python integer; \<^verbatim>\<open>numpy.zeros\<close> raises a
  \<^verbatim>\<open>ValueError\<close> for a negative dimension, and \<^verbatim>\<open>range(order+1)\<close> is empty when
  \<^verbatim>\<open>order + 1\<close> is not positive.
\<close>

definition build_matrix :: "lagrange_basis \<Rightarrow> int \<Rightarrow> error + spectral_operators" where
  "build_matrix poly order =
     (if order + 1 < 0 then Inl ValueError
      else
        let n = nat (order + 1);
            st0 = \<lparr>mat_J = zeros n n, mat_H = zeros n n, mat_K = zeros n n, mat_L = zeros n n,
                   mat_M = zeros n n, mat_N = zeros n n, vec_P = replicate n 0\<rparr>
        in bindE (foldE (outer_step poly n) st0 [0..<n]) (\<lambda>st.
             let J_d = drop_last_column (mat_J st);
                 K_d = drop_last_column (mat_K st);
                 L_d = drop_last_column (mat_L st);
                 M_d = drop_last_column (mat_M st);
                 N_d = drop_last_column (mat_N st);
                 H_d = drop_last_column (mat_H st);
                 P_d = vec_P st
             in Inr \<lparr>op_D = K_d,
                     op_K1 = mat_add (mat_sub L_d M_d) J_d,
                     op_K2 = mat_sub N_d H_d,
                     op_P = P_d\<rparr>))"

text \<open>
  \<^verbatim>\<open>SpectralLagrangeModel_EC.__init__\<close>: the assertion on the tag, the basis, the
  operators. The first argument is the outcome of the call \<^verbatim>\<open>Lagrange(order)\<close>.
\<close>

record spectral_model =
  SLagM_domain :: char
  SLagM_tag :: string
  SLagM_order :: int
  SLagM_n_mat :: nat
  SLagM_poly :: lagrange_basis
  SLagM_ops :: spectral_operators

definition SpectralLagrangeModel_EC_init ::
    "(error + lagrange_basis) \<Rightarrow> nat \<Rightarrow> string \<Rightarrow> int \<Rightarrow> error + spectral_model" where
  "SpectralLagrangeModel_EC_init Lagrange_order n_mat tag order =
     (if tag \<noteq> ''anode'' \<and> tag \<noteq> ''cathode'' then Inl AssertionError
      else bindE Lagrange_order (\<lambda>poly.
           bindE (build_matrix poly order) (\<lambda>ops.
             Inr \<lparr>SLagM_domain = hd tag, SLagM_tag = tag, SLagM_order = order,
                  SLagM_n_mat = n_mat, SLagM_poly = poly, SLagM_ops = ops\<rparr>)))"

text \<open>\<^verbatim>\<open>SEI.__init__\<close> asserts the tag and stores its arguments.\<close>

record sei_model =
  SEI_domain :: char
  SEI_tag :: string
  SEI_order :: int
  SEI_SEI :: "sei_params option"

definition SEI_init :: "string \<Rightarrow> int \<Rightarrow> error + sei_model" where
  "SEI_init tag order =
     (if tag \<noteq> ''anode'' \<and> tag \<noteq> ''cathode'' then Inl AssertionError
      else Inr \<lparr>SEI_domain = hd tag, SEI_tag = tag, SEI_order = order, SEI_SEI = None\<rparr>)"

text \<open>\<^verbatim>\<open>SEI.setup\<close> is where the spectral model is constructed, with the number of
  active materials of the electrode.\<close>

definition SEI_setup :: "sei_model \<Rightarrow> sei_params \<Rightarrow> material list \<Rightarrow> (error + lagrange_basis)
    \<Rightarrow> error + sei_model \<times> spectral_model" where
  "SEI_setup self electrode_SEI active_material Lagrange_order =
     bindE (SpectralLagrangeModel_EC_init Lagrange_order (length active_material)
              (SEI_tag self) (SEI_order self))
       (\<lambda>SLagM. Inr (self\<lparr>SEI_SEI := Some electrode_SEI\<rparr>, SLagM))"

text \<open>An array of \<open>r\<close> rows and \<open>c\<close> columns.\<close>

definition has_shape :: "matrix \<Rightarrow> nat \<Rightarrow> nat \<Rightarrow> bool" where
  "has_shape A r c = (length A = r \<and> list_all (\<lambda>row. length row = c) A)"

text \<open>The basis has at least \<open>n\<close> polynomials in each of \<^verbatim>\<open>f\<close>, \<^verbatim>\<open>df\<close> and \<^verbatim>\<open>xdf\<close>, none
  of them an empty coefficient array.\<close>

definition basis_ready :: "nat \<Rightarrow> lagrange_basis \<Rightarrow> bool" where
  "basis_ready n poly =
     (n \<le> length (poly_f poly) \<and> n \<le> length (poly_df poly) \<and> n \<le> length (poly_xdf poly)
      \<and> list_all (\<lambda>c. c \<noteq> []) (poly_f poly) \<and> list_all (\<lambda>c. c \<noteq> []) (poly_df poly)
      \<and> list_all (\<lambda>c. c \<noteq> []) (poly_xdf poly))"

text \<open>For concrete evaluations: the two nodal polynomials \<open>1 - x\<close> and \<open>x\<close> on
  \<open>[0, 1]\<close> with their derivatives and products with \<open>x\<close>, and a basis without
  polynomials.\<close>

definition linear_basis :: lagrange_basis where
  "linear_basis = \<lparr>poly_f = [[1, - 1], [0, 1]], poly_df = [[- 1], [1]],
      poly_xf = [[0, 1, - 1], [0, 0, 1]], poly_xdf = [[0, - 1], [0, 1]]\<rparr>"

definition empty_basis :: lagrange_basis where
  "empty_basis = \<lparr>poly_f = [], poly_df = [], poly_xf = [], poly_xdf = []\<rparr>"

definition empty_operators :: spectral_operators where
  "empty_operators = \<lparr>op_D = [], op_K1 = [], op_K2 = [], op_P = []\<rparr>"

text \<open>The invariant of the outer and of the inner loop: every local array keeps its shape.\<close>

definition state_shape :: "nat \<Rightarrow> build_state \<Rightarrow> bool" where
  "state_shape n st =
     (has_shape (mat_J st) n n \<and> has_shape (mat_H st) n n \<and> has_shape (mat_K st) n n
      \<and> has_shape (mat_L st) n n \<and> has_shape (mat_M st) n n \<and> has_shape (mat_N st) n n
      \<and> length (vec_P st) = n)"

section \<open>Generations\<close>

text \<open>
  C6. Whatever the three generation arrays hold, one call of \<open>advance_problem\<close> leaves
  in the previous generation what the current generation held before the call, and
  in the twice-previous generation what the previous generation held before the call;
  the current generation is not touched.
\<close>

theorem advance_problem_shifts:
  "c_s_0_db (advance_problem s) = c_s_1_db s
   \<and> c_s__1_db (advance_problem s) = c_s_0_db s
   \<and> c_s_1_db (advance_problem s) = c_s_1_db s"
  by (simp add: advance_problem_def Let_def)

section \<open>The time-filter residual\<close>

lemma norm_db_unit: "norm_db (Suc 0) (Suc 0) (Suc 0) e = \<bar>e 0 0 0\<bar>"
  by (simp add: norm_db_def)

text \<open>
  C1, as the code has it. For every store and all scalars \<open>nu\<close> and \<open>tau\<close> with
  \<open>tau \<noteq> -1\<close>, \<open>get_time_filter_error\<close> returns the norm of
  \<open>nu * (current / (1 + tau) - previous + tau * prevprev / (1 + tau))\<close>: the current
  generation \<open>c_s_1_db\<close> is the one divided by \<open>1 + tau\<close>, and the previous generation
  \<open>c_s_0_db\<close> the one subtracted.
\<close>

theorem time_filter_error_formula:
  "tau \<noteq> - 1 \<Longrightarrow>
   get_time_filter_error s nu tau =
     Inr (norm_db (nodes s) (length (particles s)) (dofs s)
       (\<lambda>n i d. nu * (c_s_1_db s n i d / (1 + tau) - c_s_0_db s n i d
                      + tau * c_s__1_db s n i d / (1 + tau))))"
proof -
  assume "tau \<noteq> - 1"
  then have nz: "1 + tau \<noteq> 0" by linarith
  then show ?thesis
    by (simp add: get_time_filter_error_def)
qed

theorem time_filter_error_formula_witness:
  "(1::real) \<noteq> - 1 \<and> get_time_filter_error (unit_store 0 1 0) 1 1 = Inr (1 / 2)"
  using time_filter_error_formula [of 1 "unit_store 0 1 0" 1]
  by (simp add: unit_store_def const_db_def norm_db_unit)

text \<open>
  With the roles of the specification's wording (previous divided, current subtracted)
  the value differs: for previous 0, current 1, twice-previous 0 and \<open>nu = tau = 1\<close>
  the code returns 1/2, the worded formula 1.
\<close>

theorem time_filter_error_counterexample:
  "(1::real) \<noteq> - 1
   \<and> get_time_filter_error (unit_store 0 1 0) 1 1 = Inr (1 / 2)
   \<and> spec_time_filter_error (unit_store 0 1 0) 1 1 = 1
   \<and> get_time_filter_error (unit_store 0 1 0) 1 1
        \<noteq> Inr (spec_time_filter_error (unit_store 0 1 0) 1 1)"
  by (simp add: get_time_filter_error_def spec_time_filter_error_def unit_store_def
      const_db_def norm_db_unit)

section \<open>Initial concentration\<close>

lemma fill_loop_shape:
  "fill_loop s i vs = Inr s' \<Longrightarrow>
     particles s' = particles s \<and> nodes s' = nodes s \<and> dofs s' = dofs s"
proof (induction vs arbitrary: s i)
  case Nil
  then show ?case by simp
next
  case (Cons v vs)
  then show ?case
    by (cases v) (auto split: if_splits)
qed

lemma fill_loop_entries:
  "fill_loop s i vs = Inr s' \<Longrightarrow>
     c_s_0_db s' n j d =
       (if i \<le> j \<and> j < i + length vs then float_of (vs ! (j - i)) else c_s_0_db s n j d)
   \<and> c_s_1_db s' n j d =
       (if i \<le> j \<and> j < i + length vs then float_of (vs ! (j - i)) else c_s_1_db s n j d)
   \<and> c_s__1_db s' n j d =
       (if i \<le> j \<and> j < i + length vs then float_of (vs ! (j - i)) else c_s__1_db s n j d)"
proof (induction vs arbitrary: s i)
  case Nil
  then show ?case by simp
next
  case (Cons v vs)
  show ?case
  proof (cases v)
    case (PyFloat c)
    with Cons.prems have inr: "i < length (particles s)"
      and run: "fill_loop (s\<lparr>c_s_0_db := fill_material (c_s_0_db s) i c,
                            c_s_1_db := fill_material (c_s_1_db s) i c,
                            c_s__1_db := fill_material (c_s__1_db s) i c\<rparr>) (Suc i) vs = Inr s'"
      by (auto split: if_splits)
    from Cons.IH [OF run] PyFloat show ?thesis
      by (auto simp: fill_material_def nth_Cons' Suc_diff_le)
  next
    case (PyConstant c)
    with Cons.prems have inr: "i < length (particles s)"
      and run: "fill_loop (s\<lparr>c_s_0_db := fill_material (c_s_0_db s) i c,
                            c_s_1_db := fill_material (c_s_1_db s) i c,
                            c_s__1_db := fill_material (c_s__1_db s) i c\<rparr>) (Suc i) vs = Inr s'"
      by (auto split: if_splits)
    from Cons.IH [OF run] PyConstant show ?thesis
      by (auto simp: fill_material_def nth_Cons' Suc_diff_le)
  next
    case PyOther
    with Cons.prems show ?thesis by simp
  qed
qed

lemma fill_loop_accepts:
  "list_all is_number vs \<Longrightarrow> i + length vs \<le> length (particles s) \<Longrightarrow>
     \<exists>s'. fill_loop s i vs = Inr s'"
proof (induction vs arbitrary: s i)
  case Nil
  then show ?case by simp
next
  case (Cons v vs)
  then show ?case
    by (cases v) auto
qed

text \<open>
  C8. \<open>initial_guess\<close> raises whenever it is given a non-empty list whose length is
  not the number of active materials. When it returns, the three generations hold the
  same value at every node and dof of every material, and for a non-empty list that
  value is the one given for the material.
\<close>

theorem initial_guess_contract:
  "(vals \<noteq> [] \<and> length vals \<noteq> length (particles s)
      \<longrightarrow> initial_guess s vals = Inl AssertionError)
   \<and> (initial_guess s vals = Inr s' \<longrightarrow>
        (\<forall>i < length (particles s). \<forall>n d.
            c_s_1_db s' n i d = c_s_0_db s' n i d
          \<and> c_s__1_db s' n i d = c_s_0_db s' n i d
          \<and> (vals \<noteq> [] \<longrightarrow> c_s_0_db s' n i d = float_of (vals ! i))))"
proof (intro conjI impI allI)
  assume "vals \<noteq> [] \<and> length vals \<noteq> length (particles s)"
  then show "initial_guess s vals = Inl AssertionError"
    by (simp add: initial_guess_def)
next
  fix i n d
  assume acc: "initial_guess s vals = Inr s'" and i: "i < length (particles s)"
  let ?dflt = "map (\<lambda>material. PyFloat (c_s_ini material)) (particles s)"
  from acc have "fill_loop s 0 vals = Inr s' \<and> length vals = length (particles s)
      \<or> fill_loop s 0 ?dflt = Inr s' \<and> vals = []"
    by (auto simp: initial_guess_def split: if_splits)
  then show "c_s_1_db s' n i d = c_s_0_db s' n i d"
    using i fill_loop_entries [of s 0 vals s' n i d] fill_loop_entries [of s 0 ?dflt s' n i d]
    by auto
  from \<open>_ \<or> _\<close> show "c_s__1_db s' n i d = c_s_0_db s' n i d"
    using i fill_loop_entries [of s 0 vals s' n i d] fill_loop_entries [of s 0 ?dflt s' n i d]
    by auto
  assume "vals \<noteq> []"
  with \<open>_ \<or> _\<close> show "c_s_0_db s' n i d = float_of (vals ! i)"
    using i fill_loop_entries [of s 0 vals s' n i d] by auto
qed

theorem initial_guess_contract_witness:
  "initial_guess (unit_store 0 0 0) [PyFloat 3, PyFloat 4] = Inl AssertionError
   \<and> (case initial_guess (unit_store 0 0 0) [PyConstant 3] of
        Inl e \<Rightarrow> False
      | Inr s' \<Rightarrow> c_s_0_db s' 0 0 0 = 3 \<and> c_s_1_db s' 0 0 0 = 3 \<and> c_s__1_db s' 0 0 0 = 3)"
proof -
  define s' where "s' = unit_store 0 0 0 \<lparr>c_s_0_db := fill_material (const_db 0) 0 3,
      c_s_1_db := fill_material (const_db 0) 0 3, c_s__1_db := fill_material (const_db 0) 0 3\<rparr>"
  have acc: "initial_guess (unit_store 0 0 0) [PyConstant 3] = Inr s'"
    by (simp add: initial_guess_def unit_store_def s'_def)
  have len: "0 < length (particles (unit_store 0 0 0))" by (simp add: unit_store_def)
  have rej: "initial_guess (unit_store 0 0 0) [PyFloat 3, PyFloat 4] = Inl AssertionError"
    using initial_guess_contract [of "[PyFloat 3, PyFloat 4]" "unit_store 0 0 0"]
    by (simp add: unit_store_def)
  have "c_s_1_db s' 0 0 0 = c_s_0_db s' 0 0 0 \<and> c_s__1_db s' 0 0 0 = c_s_0_db s' 0 0 0
      \<and> c_s_0_db s' 0 0 0 = 3"
    using initial_guess_contract [of "[PyConstant 3]" "unit_store 0 0 0" s'] acc len by simp
  with rej acc show ?thesis by simp
qed

text \<open>
  C10. \<open>initial_guess\<close> with no argument, or with the empty list, returns: it takes
  each material's configured \<open>c_s_ini\<close> and fills the three generations with it at every
  node and dof, leaving the shape of the store as it was.
\<close>

theorem initial_guess_default:
  "\<exists>s'. initial_guess s [] = Inr s' \<and> particles s' = particles s
     \<and> nodes s' = nodes s \<and> dofs s' = dofs s
     \<and> (\<forall>i < length (particles s). \<forall>n d.
            c_s_0_db s' n i d = c_s_ini (particles s ! i)
          \<and> c_s_1_db s' n i d = c_s_ini (particles s ! i)
          \<and> c_s__1_db s' n i d = c_s_ini (particles s ! i))"
proof -
  let ?dflt = "map (\<lambda>material. PyFloat (c_s_ini material)) (particles s)"
  have "list_all is_number ?dflt" by (simp add: list_all_iff)
  then obtain s' where run: "fill_loop s 0 ?dflt = Inr s'"
    using fill_loop_accepts [of ?dflt 0 s] by auto
  then have "initial_guess s [] = Inr s'" by (simp add: initial_guess_def)
  moreover have "particles s' = particles s \<and> nodes s' = nodes s \<and> dofs s' = dofs s"
    using fill_loop_shape [OF run] .
  moreover have "c_s_0_db s' n i d = c_s_ini (particles s ! i)
          \<and> c_s_1_db s' n i d = c_s_ini (particles s ! i)
          \<and> c_s__1_db s' n i d = c_s_ini (particles s ! i)" if "i < length (particles s)" for i n d
    using fill_loop_entries [OF run, of n i d] that by simp
  ultimately show ?thesis by blast
qed

theorem initial_guess_default_witness:
  "case initial_guess (unit_store 0 0 0) [] of
     Inl e \<Rightarrow> False
   | Inr s' \<Rightarrow> c_s_0_db s' 0 0 0 = 1 \<and> c_s_1_db s' 0 0 0 = 1 \<and> c_s__1_db s' 0 0 0 = 1"
proof -
  obtain s' where acc: "initial_guess (unit_store 0 0 0) [] = Inr s'"
    and ent: "\<forall>i < length (particles (unit_store 0 0 0)). \<forall>n d.
            c_s_0_db s' n i d = c_s_ini (particles (unit_store 0 0 0) ! i)
          \<and> c_s_1_db s' n i d = c_s_ini (particles (unit_store 0 0 0) ! i)
          \<and> c_s__1_db s' n i d = c_s_ini (particles (unit_store 0 0 0) ! i)"
    using initial_guess_default [of "unit_store 0 0 0"] by blast
  have "c_s_0_db s' 0 0 0 = 1 \<and> c_s_1_db s' 0 0 0 = 1 \<and> c_s__1_db s' 0 0 0 = 1"
    using ent by (simp add: unit_store_def unit_material_def)
  with acc show ?thesis by simp
qed






section \<open>The reaction-rate law\<close>

lemma quotient_minus: "quotient (- a * b * c) d = map_option uminus (quotient (a * b * c) d)"
  by (simp add: quotient_def)

text \<open>
  C7. For every material and all inputs the flux \<open>_j_li\<close> is the rate law of the
  specification: \<open>i0 * (exp(alpha F eta / (R T)) - exp(- alpha F eta / (R T)))\<close> with
  \<open>i0 = k_eff * c_e^alpha * (c_s_max - c_s)^alpha * c_s^alpha\<close>,
  \<open>k_eff = k_0 * exp(k_0_Ea / R * (1 / k_0_Tref - 1 / T))\<close> and
  \<open>eta = phi - OCV(c_s / c_s_max)\<close>. The two are undefined at the same inputs, and
  where no quotient has a zero denominator and the three bases are positive the value
  is the formula in real arithmetic.
\<close>

theorem j_li_is_butler_volmer:
  "j_li_material material c_s c_e phi T alpha F R = spec_j_li material c_s c_e phi T alpha F R
   \<and> (c_s_max material \<noteq> 0 \<and> R \<noteq> 0 \<and> T \<noteq> 0 \<and> k_0_Tref material \<noteq> 0
        \<and> 0 < c_e \<and> 0 < c_s \<and> c_s < c_s_max material \<longrightarrow>
      j_li_material material c_s c_e phi T alpha F R =
        Some (k_0 material * exp (k_0_Ea material / R * (1 / k_0_Tref material - 1 / T))
                * c_e powr alpha * (c_s_max material - c_s) powr alpha * c_s powr alpha
              * (exp (alpha * F * (phi - U material (c_s / c_s_max material)) / (R * T))
                 - exp (- alpha * F * (phi - U material (c_s / c_s_max material)) / (R * T)))))"
proof (intro conjI impI)
  show "j_li_material material c_s c_e phi T alpha F R = spec_j_li material c_s c_e phi T alpha F R"
    unfolding j_li_material_def j_li_def spec_j_li_def spec_i0_def spec_k_eff_def spec_eta_def
    by (auto simp: quotient_def Let_def split: Option.bind_splits)
next
  assume "c_s_max material \<noteq> 0 \<and> R \<noteq> 0 \<and> T \<noteq> 0 \<and> k_0_Tref material \<noteq> 0
        \<and> 0 < c_e \<and> 0 < c_s \<and> c_s < c_s_max material"
  then show "j_li_material material c_s c_e phi T alpha F R =
        Some (k_0 material * exp (k_0_Ea material / R * (1 / k_0_Tref material - 1 / T))
                * c_e powr alpha * (c_s_max material - c_s) powr alpha * c_s powr alpha
              * (exp (alpha * F * (phi - U material (c_s / c_s_max material)) / (R * T))
                 - exp (- alpha * F * (phi - U material (c_s / c_s_max material)) / (R * T))))"
    by (simp add: j_li_material_def j_li_def quotient_def real_power_def Let_def)
qed

theorem j_li_is_butler_volmer_witness:
  "j_li_material unit_material 1 1 1 1 1 1 1 = Some (exp 1 - exp (- 1))
   \<and> spec_j_li unit_material 1 1 1 1 1 1 1 = Some (exp 1 - exp (- 1))"
  using j_li_is_butler_volmer [of unit_material 1 1 1 1 1 1 1]
  by (auto simp add: unit_material_def)

section \<open>The sign policy of the loss of active material\<close>

lemma mapE_total:
  "(\<And>x. x \<in> set xs \<Longrightarrow> f x = Inr (g x)) \<Longrightarrow> mapE f xs = Inr (map g xs)"
  by (induction xs) simp_all

lemma eps_s_variation_stress:
  assumes "LAM_model LAM = ''stress''" and "length active_material \<le> length sigma_h"
  shows "eps_s_variation LAM active_material sigma_h delta_t =
           Inr (map (\<lambda>(i, am). eps_s_value LAM am (sigma_h ! i) delta_t)
                  (enumerate 0 active_material))"
  unfolding eps_s_variation_def
  using assms by (intro mapE_total) (auto simp: in_set_enumerate_eq)

text \<open>
  C3, as the code has it. In the stress model with \<open>m > 0\<close>, for a material whose
  critical stress is not zero: where the hydrostatic stress is at most 0 the increment
  \<open>delta_eps_s\<close> is exactly 0, whatever the other parameters; where it is positive the
  increment is \<open>- delta_t * beta * (sigma_h / sigma_crit)^m\<close>, defined when the power
  is, and with a positive critical stress always.
\<close>

theorem eps_s_variation_sign_policy:
  assumes "LAM_model LAM = ''stress''" and "0 < LAM_m LAM"
    and "length sigma_h = length active_material" and "i < length active_material"
    and "critical_stress (active_material ! i) \<noteq> 0"
  shows "\<exists>delta_eps_s. eps_s_variation LAM active_material sigma_h delta_t = Inr delta_eps_s
     \<and> length delta_eps_s = length active_material
     \<and> (sigma_h ! i \<le> 0 \<longrightarrow> delta_eps_s ! i = Some 0)
     \<and> (0 < sigma_h ! i \<longrightarrow>
          delta_eps_s ! i =
            map_option (\<lambda>p. - delta_t * LAM_beta LAM * p)
              (real_power (sigma_h ! i / critical_stress (active_material ! i)) (LAM_m LAM)))
     \<and> (0 < sigma_h ! i \<and> 0 < critical_stress (active_material ! i) \<longrightarrow>
          delta_eps_s ! i =
            Some (- delta_t * LAM_beta LAM
                    * (sigma_h ! i / critical_stress (active_material ! i)) powr LAM_m LAM))"
proof -
  let ?r = "map (\<lambda>(i, am). eps_s_value LAM am (sigma_h ! i) delta_t) (enumerate 0 active_material)"
  have run: "eps_s_variation LAM active_material sigma_h delta_t = Inr ?r"
    using eps_s_variation_stress [of LAM active_material sigma_h delta_t] assms by simp
  have at: "?r ! i = eps_s_value LAM (active_material ! i) (sigma_h ! i) delta_t"
    using assms(4) by (simp add: nth_enumerate_eq)
  let ?v = "eps_s_value LAM (active_material ! i) (sigma_h ! i) delta_t"
  let ?q = "sigma_h ! i / critical_stress (active_material ! i)"
  have "sigma_h ! i \<le> 0 \<Longrightarrow> ?v = Some 0"
    using assms(2,5) by (simp add: eps_s_value_def quotient_def real_power_def)
  moreover have "0 < sigma_h ! i \<Longrightarrow>
      ?v = map_option (\<lambda>p. - delta_t * LAM_beta LAM * p) (real_power ?q (LAM_m LAM))"
    using assms(5) by (cases "real_power ?q (LAM_m LAM)") (simp_all add: eps_s_value_def quotient_def)
  moreover have "0 < sigma_h ! i \<and> 0 < critical_stress (active_material ! i) \<Longrightarrow>
      ?v = Some (- delta_t * LAM_beta LAM * ?q powr LAM_m LAM)"
    by (simp add: eps_s_value_def quotient_def real_power_def)
  ultimately show ?thesis unfolding run at [symmetric] by simp
qed

theorem eps_s_variation_sign_policy_witness:
  "eps_s_variation unit_LAM [unit_material] [- 3] 5 = Inr [Some 0]
   \<and> eps_s_variation unit_LAM [unit_material] [3] 5 = Inr [Some (- 15)]"
proof -
  have a: "LAM_model unit_LAM = ''stress''" "0 < LAM_m unit_LAM" by (simp_all add: unit_LAM_def)
  have c: "critical_stress ([unit_material] ! 0) \<noteq> 0" by (simp add: unit_material_def)
  have "eps_s_variation unit_LAM [unit_material] [- 3] 5 = Inr [Some 0]"
    using eps_s_variation_sign_policy [OF a, of "[- 3]" "[unit_material]" 0 5] c
    by (auto simp: length_Suc_conv)
  moreover have "eps_s_variation unit_LAM [unit_material] [3] 5 = Inr [Some (- 15)]"
    using eps_s_variation_sign_policy [OF a, of "[3]" "[unit_material]" 0 5] c
    by (auto simp: length_Suc_conv unit_LAM_def unit_material_def)
  ultimately show ?thesis by simp
qed

text \<open>
  With a critical stress of zero the quotient \<^verbatim>\<open>sigma_h_am / am.critical_stress\<close> is
  0/0 also where the stress is not positive, and the increment has no value.
\<close>

theorem eps_s_variation_counterexample:
  "LAM_model unit_LAM = ''stress'' \<and> 0 < LAM_m unit_LAM \<and> (- 3 :: real) \<le> 0
   \<and> eps_s_variation unit_LAM [zero_stress_material] [- 3] 5 = Inr [None]
   \<and> eps_s_variation unit_LAM [zero_stress_material] [- 3] 5 \<noteq> Inr [Some 0]"
  by (simp add: eps_s_variation_def eps_s_value_def quotient_def unit_LAM_def
      zero_stress_material_def unit_material_def)

section \<open>Growth of the SEI film\<close>

text \<open>The residual of \<open>j_SEI\<close> makes the SEI current the negative of a non-negative
  exchange term.\<close>

lemma j_SEI_nonpositive:
  assumes "SEI_j_SEI j_SEI i_0s phi_s phi_e T J G_film SEI F R = Some 0" and "0 \<le> i_0s"
  shows "j_SEI \<le> 0"
proof -
  from assms(1) obtain b where "j_SEI + i_0s * exp b = 0"
    by (auto simp: SEI_j_SEI_def Let_def split: Option.bind_splits)
  moreover have "0 \<le> i_0s * exp b" using assms(2) by simp
  ultimately show ?thesis by linarith
qed

lemma delta_growth_solution:
  assumes "delta_growth (Some DT) delta_0 delta_1 j_SEI SEI F = Some 0"
  shows "delta_1 = delta_0 - DT_delta_t DT * (j_SEI * sei_M SEI / (2 * F * sei_rho SEI))"
proof -
  from assms have nz: "DT_delta_t DT \<noteq> 0"
    and eq: "(delta_1 - delta_0) / DT_delta_t DT + j_SEI * sei_M SEI / (2 * F * sei_rho SEI) = 0"
    by (auto simp: delta_growth_def DT_dt_def quotient_def split: Option.bind_splits if_splits)
  from eq have "(delta_1 - delta_0) / DT_delta_t DT = - (j_SEI * sei_M SEI / (2 * F * sei_rho SEI))"
    by linarith
  then have "delta_1 - delta_0 = - (j_SEI * sei_M SEI / (2 * F * sei_rho SEI)) * DT_delta_t DT"
    using nz by (simp add: divide_eq_eq)
  then show ?thesis by (simp add: algebra_simps)
qed

text \<open>
  C2, as the code has it. For a step \<open>delta_t > 0\<close> and positive \<open>M\<close>, \<open>F\<close> and \<open>rho\<close>,
  the thickness \<open>delta_1\<close> at which the residual of \<open>delta_growth\<close> vanishes is
  \<open>delta_0 - delta_t * j_SEI * M / (2 F rho)\<close>. It is at least the previous thickness
  \<open>delta_0\<close> when \<open>j_SEI \<le> 0\<close>, the sign that the residual of \<open>j_SEI\<close> gives the
  current, and it is smaller than \<open>delta_0\<close> when \<open>j_SEI\<close> is strictly positive.
\<close>

theorem delta_growth_monotone:
  assumes "delta_growth (Some DT) delta_0 delta_1 j_SEI SEI F = Some 0"
    and "0 < DT_delta_t DT" and "0 < sei_M SEI" and "0 < F" and "0 < sei_rho SEI"
  shows "delta_1 = delta_0 - DT_delta_t DT * (j_SEI * sei_M SEI / (2 * F * sei_rho SEI))
     \<and> (j_SEI \<le> 0 \<longrightarrow> delta_0 \<le> delta_1)
     \<and> (0 < j_SEI \<longrightarrow> delta_1 < delta_0)"
proof -
  let ?k = "DT_delta_t DT * (sei_M SEI / (2 * F * sei_rho SEI))"
  have k: "0 < ?k" using assms(2-5) by simp
  have sol: "delta_1 = delta_0 - j_SEI * ?k"
    using delta_growth_solution [OF assms(1)] by (simp add: algebra_simps)
  have "j_SEI \<le> 0 \<Longrightarrow> delta_0 \<le> delta_1"
  proof -
    assume "j_SEI \<le> 0"
    from this less_imp_le [OF k] have "j_SEI * ?k \<le> 0" by (rule mult_nonpos_nonneg)
    with sol show ?thesis by linarith
  qed
  moreover have "0 < j_SEI \<Longrightarrow> delta_1 < delta_0"
  proof -
    assume "0 < j_SEI"
    from this k have "0 < j_SEI * ?k" by (rule mult_pos_pos)
    with sol show ?thesis by linarith
  qed
  ultimately show ?thesis using delta_growth_solution [OF assms(1)] by blast
qed

theorem delta_growth_monotone_witness:
  "delta_growth (Some unit_DT) 1 2 (- 2) unit_SEI 1 = Some 0 \<and> (1::real) \<le> 2"
proof -
  have r: "delta_growth (Some unit_DT) 1 2 (- 2) unit_SEI 1 = Some 0"
    by (simp add: delta_growth_def DT_dt_def quotient_def unit_DT_def unit_SEI_def)
  have "(1::real) \<le> 2"
    using delta_growth_monotone [OF r] by (simp add: unit_DT_def unit_SEI_def)
  with r show ?thesis by simp
qed

text \<open>
  A strictly positive current thins the film: with all constants 1, the residual
  vanishes for \<open>j_SEI = 2\<close> at the new thickness 1 after the previous thickness 2.
\<close>

theorem delta_growth_counterexample:
  "delta_growth (Some unit_DT) 2 1 2 unit_SEI 1 = Some 0 \<and> (0::real) < 2 \<and> \<not> (2::real) \<le> 1"
  by (simp add: delta_growth_def DT_dt_def quotient_def unit_DT_def unit_SEI_def)

section \<open>Shape of the spectral operators\<close>

lemma has_shape_zeros: "has_shape (zeros r c) r c"
  by (simp add: has_shape_def zeros_def list_all_iff)

lemma bindE_Inr: "bindE (Inr x) g = g x"
  by (simp add: bindE_def)

lemma has_shape_set_entry:
  assumes "has_shape A r c"
  shows "has_shape (set_entry A i j v) r c"
proof (cases "i < length A")
  case True
  with assms have "length ((A ! i)[j := v]) = c"
    by (simp add: has_shape_def list_all_length)
  moreover have "set (A[i := (A ! i)[j := v]]) \<subseteq> insert ((A ! i)[j := v]) (set A)"
    by (rule set_update_subset_insert)
  ultimately show ?thesis
    using assms unfolding has_shape_def set_entry_def list_all_iff by auto
next
  case False
  then have "A[i := (A ! i)[j := v]] = A" by (simp add: list_update_beyond)
  with assms show ?thesis by (simp add: set_entry_def)
qed

lemma has_shape_drop_last_column: "has_shape A r (Suc c) \<Longrightarrow> has_shape (drop_last_column A) r c"
  by (simp add: has_shape_def drop_last_column_def list_all_iff)

lemma has_shape_map2:
  "has_shape A r c \<Longrightarrow> has_shape B r c \<Longrightarrow> has_shape (map2 (map2 g) A B) r c"
  by (auto simp: has_shape_def list_all_iff dest!: set_zip_leftD set_zip_rightD
      elim!: in_set_zipE)

lemma has_shape_mat_sub: "has_shape A r c \<Longrightarrow> has_shape B r c \<Longrightarrow> has_shape (mat_sub A B) r c"
  unfolding mat_sub_def by (rule has_shape_map2)

lemma has_shape_mat_add: "has_shape A r c \<Longrightarrow> has_shape B r c \<Longrightarrow> has_shape (mat_add A B) r c"
  unfolding mat_add_def by (rule has_shape_map2)

lemma foldE_invariant:
  assumes "\<And>s x. x \<in> set xs \<Longrightarrow> Inv s \<Longrightarrow> \<exists>s'. step s x = Inr s' \<and> Inv s'" and "Inv s"
  shows "\<exists>s'. foldE step s xs = Inr s' \<and> Inv s'"
  using assms
proof (induction xs arbitrary: s)
  case Nil
  then show ?case by simp
next
  case (Cons x xs)
  from Cons.prems obtain s1 where s1: "step s x = Inr s1" "Inv s1" by fastforce
  from Cons.IH [of s1] Cons.prems(1) s1(2) obtain s' where "foldE step s1 xs = Inr s'" "Inv s'"
    by auto
  with s1 show ?case by simp
qed

lemma trimseq_nonempty: "c \<noteq> [] \<Longrightarrow> trimseq c \<noteq> []"
  by (simp add: trimseq_def)

lemma convolve_nonempty: "p \<noteq> [] \<Longrightarrow> q \<noteq> [] \<Longrightarrow> convolve p q \<noteq> []"
  by (cases p; cases q) (simp_all add: convolve_def)

lemma polymul_returns:
  "p \<noteq> [] \<Longrightarrow> q \<noteq> [] \<Longrightarrow> \<exists>r. polymul p q = Inr r \<and> r \<noteq> []"
  by (simp add: polymul_def trimseq_nonempty convolve_nonempty)

lemma polyint_returns: "c \<noteq> [] \<Longrightarrow> \<exists>r. polyint c = Inr r \<and> r \<noteq> []"
  by (simp add: polyint_def)

lemma polyval_returns: "c \<noteq> [] \<Longrightarrow> \<exists>v. polyval x c = Inr v"
  by (simp add: polyval_def)

lemma poly_prod_returns:
  assumes "i < length ps" "j < length qs" "list_all (\<lambda>c. c \<noteq> []) ps" "list_all (\<lambda>c. c \<noteq> []) qs"
  shows "\<exists>r. poly_prod ps i qs j = Inr r \<and> r \<noteq> []"
proof -
  have "ps ! i \<noteq> []" "qs ! j \<noteq> []" using assms by (simp_all add: list_all_length)
  then show ?thesis
    using assms(1,2) polymul_returns [of "ps ! i" "qs ! j"]
    by (simp add: poly_prod_def nth_py_def bindE_def)
qed

lemma prod_value_returns:
  assumes "i < length ps" "j < length qs" "list_all (\<lambda>c. c \<noteq> []) ps" "list_all (\<lambda>c. c \<noteq> []) qs"
  shows "\<exists>v. bindE (poly_prod ps i qs j) (polyval x) = Inr v"
proof -
  obtain r where "poly_prod ps i qs j = Inr r" "r \<noteq> []"
    using poly_prod_returns [OF assms] by blast
  then show ?thesis using polyval_returns [of r x] by (simp add: bindE_def)
qed

lemma prod_integral_returns:
  assumes "i < length ps" "j < length qs" "list_all (\<lambda>c. c \<noteq> []) ps" "list_all (\<lambda>c. c \<noteq> []) qs"
  shows "\<exists>v. bindE (bindE (poly_prod ps i qs j) polyint) (polyval x) = Inr v"
proof -
  obtain r where r: "poly_prod ps i qs j = Inr r" "r \<noteq> []"
    using poly_prod_returns [OF assms] by blast
  then obtain q where q: "polyint r = Inr q" "q \<noteq> []"
    using polyint_returns [of r] by blast
  then show ?thesis using r polyval_returns [of q x] by (simp add: bindE_def)
qed

lemma inner_step_returns:
  assumes "basis_ready n poly" "i < n" "j < n" "state_shape n st"
  shows "\<exists>st'. inner_step poly i st j = Inr st' \<and> state_shape n st'"
proof -
  from assms(1-3) have
    f: "i < length (poly_f poly)" "j < length (poly_f poly)" "list_all (\<lambda>c. c \<noteq> []) (poly_f poly)"
    and df: "i < length (poly_df poly)" "j < length (poly_df poly)" "list_all (\<lambda>c. c \<noteq> []) (poly_df poly)"
    and xdf: "i < length (poly_xdf poly)" "list_all (\<lambda>c. c \<noteq> []) (poly_xdf poly)"
    by (simp_all add: basis_ready_def)
  obtain vJ where vJ: "bindE (poly_prod (poly_f poly) i (poly_f poly) j) (polyval 0) = Inr vJ"
    using prod_value_returns [OF f(1) f(2) f(3) f(3)] by blast
  obtain vH where vH: "bindE (poly_prod (poly_df poly) i (poly_f poly) j) (polyval 1) = Inr vH"
    using prod_value_returns [OF df(1) f(2) df(3) f(3)] by blast
  obtain vK where vK:
    "bindE (bindE (poly_prod (poly_f poly) i (poly_f poly) j) polyint) (polyval 1) = Inr vK"
    using prod_integral_returns [OF f(1) f(2) f(3) f(3)] by blast
  obtain vL where vL:
    "bindE (bindE (poly_prod (poly_df poly) i (poly_f poly) j) polyint) (polyval 1) = Inr vL"
    using prod_integral_returns [OF df(1) f(2) df(3) f(3)] by blast
  obtain vM where vM:
    "bindE (bindE (poly_prod (poly_xdf poly) i (poly_f poly) j) polyint) (polyval 1) = Inr vM"
    using prod_integral_returns [OF xdf(1) f(2) xdf(2) f(3)] by blast
  obtain vN where vN:
    "bindE (bindE (poly_prod (poly_df poly) i (poly_df poly) j) polyint) (polyval 1) = Inr vN"
    using prod_integral_returns [OF df(1) df(2) df(3) df(3)] by blast
  have "inner_step poly i st j =
      Inr (st\<lparr>mat_J := set_entry (mat_J st) i j vJ,
               mat_H := set_entry (mat_H st) i j vH,
               mat_K := set_entry (mat_K st) i j vK,
               mat_L := set_entry (mat_L st) i j vL,
               mat_M := set_entry (mat_M st) i j vM,
               mat_N := set_entry (mat_N st) i j vN\<rparr>)"
    unfolding inner_step_def vJ vH vK vL vM vN by (simp add: bindE_Inr)
  moreover have "state_shape n (st\<lparr>mat_J := set_entry (mat_J st) i j vJ,
               mat_H := set_entry (mat_H st) i j vH,
               mat_K := set_entry (mat_K st) i j vK,
               mat_L := set_entry (mat_L st) i j vL,
               mat_M := set_entry (mat_M st) i j vM,
               mat_N := set_entry (mat_N st) i j vN\<rparr>)"
    using assms(4) by (simp add: state_shape_def has_shape_set_entry)
  ultimately show ?thesis by blast
qed

lemma outer_step_returns:
  assumes "basis_ready n poly" "i < n" "state_shape n st"
  shows "\<exists>st'. outer_step poly n st i = Inr st' \<and> state_shape n st'"
proof -
  from assms(1,2) have "i < length (poly_f poly)" "poly_f poly ! i \<noteq> []"
    by (simp_all add: basis_ready_def list_all_length)
  then obtain vP where vP: "bindE (nth_py (poly_f poly) i) (polyval 0) = Inr vP"
    using polyval_returns [of "poly_f poly ! i" 0] by (auto simp: nth_py_def bindE_def)
  have "state_shape n (st\<lparr>vec_P := (vec_P st)[i := vP]\<rparr>)"
    using assms(3) by (simp add: state_shape_def)
  then have "\<exists>st'. foldE (inner_step poly i) (st\<lparr>vec_P := (vec_P st)[i := vP]\<rparr>) [0..<n] = Inr st'
      \<and> state_shape n st'"
    using assms(1,2) by (intro foldE_invariant inner_step_returns) simp_all
  then show ?thesis unfolding outer_step_def vP by (simp add: bindE_Inr)
qed

lemma build_matrix_shapes:
  assumes "0 \<le> k" and "basis_ready (nat (k + 1)) poly"
  shows "\<exists>ops. build_matrix poly k = Inr ops
      \<and> has_shape (op_D ops) (nat (k + 1)) (nat k)
      \<and> has_shape (op_K1 ops) (nat (k + 1)) (nat k)
      \<and> has_shape (op_K2 ops) (nat (k + 1)) (nat k)
      \<and> length (op_P ops) = nat (k + 1)"
proof -
  let ?n = "nat (k + 1)"
  let ?st0 = "\<lparr>mat_J = zeros ?n ?n, mat_H = zeros ?n ?n, mat_K = zeros ?n ?n, mat_L = zeros ?n ?n,
                mat_M = zeros ?n ?n, mat_N = zeros ?n ?n, vec_P = replicate ?n 0\<rparr>"
  have n: "?n = Suc (nat k)" using assms(1) by (simp add: nat_add_distrib)
  have "state_shape ?n ?st0" by (simp add: state_shape_def has_shape_zeros)
  then obtain st where run: "foldE (outer_step poly ?n) ?st0 [0..<?n] = Inr st"
    and sh: "state_shape ?n st"
    using foldE_invariant [of "[0..<?n]" "state_shape ?n" "outer_step poly ?n" ?st0]
      outer_step_returns [OF assms(2)] by auto
  from sh have d: "has_shape (drop_last_column (mat_J st)) ?n (nat k)"
    "has_shape (drop_last_column (mat_H st)) ?n (nat k)"
    "has_shape (drop_last_column (mat_K st)) ?n (nat k)"
    "has_shape (drop_last_column (mat_L st)) ?n (nat k)"
    "has_shape (drop_last_column (mat_M st)) ?n (nat k)"
    "has_shape (drop_last_column (mat_N st)) ?n (nat k)"
    and p: "length (vec_P st) = ?n"
    unfolding state_shape_def n by (simp_all add: has_shape_drop_last_column)
  have "build_matrix poly k = Inr \<lparr>op_D = drop_last_column (mat_K st),
      op_K1 = mat_add (mat_sub (drop_last_column (mat_L st)) (drop_last_column (mat_M st)))
                (drop_last_column (mat_J st)),
      op_K2 = mat_sub (drop_last_column (mat_N st)) (drop_last_column (mat_H st)),
      op_P = vec_P st\<rparr>"
    using assms(1) run by (simp add: build_matrix_def Let_def bindE_def)
  then show ?thesis
    using d p by (simp add: has_shape_mat_add has_shape_mat_sub)
qed

lemma build_matrix_linear:
  "build_matrix linear_basis 1 =
     Inr \<lparr>op_D = [[1 / 3], [1 / 6]], op_K1 = [[2 / 3], [1 / 3]], op_K2 = [[1], [- 1]],
          op_P = [1, 0]\<rparr>"
  by (simp add: build_matrix_def linear_basis_def outer_step_def inner_step_def poly_prod_def
      nth_py_def polymul_def polyint_def polyval_def trimseq_def convolve_def bindE_def
      zeros_def set_entry_def drop_last_column_def mat_sub_def mat_add_def Let_def
      upt_rec numeral_2_eq_2)

lemma init_operators:
  "SpectralLagrangeModel_EC_init (Inr poly) n_mat tag order = Inr SLagM \<Longrightarrow>
     build_matrix poly order = Inr (SLagM_ops SLagM)"
  by (cases "build_matrix poly order")
    (auto simp: SpectralLagrangeModel_EC_init_def bindE_def split: if_splits)

text \<open>
  C5. For every order \<open>k \<ge> 0\<close>, with a basis of \<open>k + 1\<close> polynomials, \<open>build_matrix\<close>
  returns matrices \<open>D\<close>, \<open>K1\<close> and \<open>K2\<close> of shape \<open>(k + 1, k)\<close> and a vector \<open>P\<close> of
  length \<open>k + 1\<close>; and any two constructions of the spectral model with this order
  hold the same operators, equal entry by entry.
\<close>

theorem spectral_operators_shape_and_determinism:
  assumes "0 \<le> k" and "basis_ready (nat (k + 1)) poly"
  shows "\<exists>ops. build_matrix poly k = Inr ops
      \<and> has_shape (op_D ops) (nat (k + 1)) (nat k)
      \<and> has_shape (op_K1 ops) (nat (k + 1)) (nat k)
      \<and> has_shape (op_K2 ops) (nat (k + 1)) (nat k)
      \<and> length (op_P ops) = nat (k + 1)
      \<and> (\<forall>n_mat tag n_mat' tag' SLagM SLagM'.
            SpectralLagrangeModel_EC_init (Inr poly) n_mat tag k = Inr SLagM
            \<and> SpectralLagrangeModel_EC_init (Inr poly) n_mat' tag' k = Inr SLagM'
            \<longrightarrow> SLagM_ops SLagM = ops \<and> SLagM_ops SLagM' = ops)"
proof -
  obtain ops where ops: "build_matrix poly k = Inr ops"
    and shapes: "has_shape (op_D ops) (nat (k + 1)) (nat k)"
      "has_shape (op_K1 ops) (nat (k + 1)) (nat k)"
      "has_shape (op_K2 ops) (nat (k + 1)) (nat k)"
      "length (op_P ops) = nat (k + 1)"
    using build_matrix_shapes [OF assms] by blast
  have "SLagM_ops SLagM = ops"
    if "SpectralLagrangeModel_EC_init (Inr poly) n_mat tag k = Inr SLagM" for n_mat tag SLagM
    using init_operators [OF that] ops by simp
  with ops shapes show ?thesis by blast
qed

theorem spectral_operators_witness:
  "(0::int) \<le> 1 \<and> basis_ready (nat (1 + 1)) linear_basis
   \<and> build_matrix linear_basis 1 =
       Inr \<lparr>op_D = [[1 / 3], [1 / 6]], op_K1 = [[2 / 3], [1 / 3]], op_K2 = [[1], [- 1]],
            op_P = [1, 0]\<rparr>
   \<and> has_shape [[1 / 3], [1 / 6]] 2 1 \<and> has_shape [[2 / 3], [1 / 3]] 2 1
   \<and> has_shape [[1], [- 1]] 2 1"
proof -
  have ready: "basis_ready (nat (1 + 1)) linear_basis"
    by (simp add: basis_ready_def linear_basis_def)
  have "has_shape [[1 / 3], [1 / 6]] (nat (1 + 1)) (nat 1)
      \<and> has_shape [[2 / 3], [1 / 3]] (nat (1 + 1)) (nat 1)
      \<and> has_shape [[1], [- 1]] (nat (1 + 1)) (nat 1)"
    using spectral_operators_shape_and_determinism [of 1 linear_basis, OF _ ready]
    unfolding build_matrix_linear by auto
  then show ?thesis using ready build_matrix_linear by simp
qed

text \<open>
  C9, as the code has it. No constructor validates the order. \<open>SEI.__init__\<close> asserts
  the tag and stores every order, a negative one too. The constructor of the spectral
  model, which \<open>setup\<close> calls, returns for order \<open>-1\<close> with empty operators once the
  basis has been built, and raises a \<open>ValueError\<close> from the allocation of the
  matrices for every order \<open>\<le> -2\<close>.
\<close>

theorem order_is_not_validated:
  "(tag = ''anode'' \<or> tag = ''cathode'' \<longrightarrow>
      SEI_init tag order = Inr \<lparr>SEI_domain = hd tag, SEI_tag = tag, SEI_order = order,
                                SEI_SEI = None\<rparr>)
   \<and> (tag = ''anode'' \<or> tag = ''cathode'' \<longrightarrow>
        SpectralLagrangeModel_EC_init (Inr poly) n_mat tag (- 1) =
          Inr \<lparr>SLagM_domain = hd tag, SLagM_tag = tag, SLagM_order = - 1, SLagM_n_mat = n_mat,
               SLagM_poly = poly, SLagM_ops = empty_operators\<rparr>)
   \<and> ((tag = ''anode'' \<or> tag = ''cathode'') \<and> order \<le> - 2 \<longrightarrow>
        SpectralLagrangeModel_EC_init (Inr poly) n_mat tag order = Inl ValueError)"
  by (auto simp: SEI_init_def SpectralLagrangeModel_EC_init_def build_matrix_def bindE_def
      empty_operators_def drop_last_column_def mat_add_def mat_sub_def zeros_def)

theorem order_is_not_validated_witness:
  "SEI_init ''cathode'' (- 5) = Inr \<lparr>SEI_domain = CHR ''c'', SEI_tag = ''cathode'',
       SEI_order = - 5, SEI_SEI = None\<rparr>
   \<and> SpectralLagrangeModel_EC_init (Inr linear_basis) 2 ''cathode'' (- 1) =
       Inr \<lparr>SLagM_domain = CHR ''c'', SLagM_tag = ''cathode'', SLagM_order = - 1,
            SLagM_n_mat = 2, SLagM_poly = linear_basis, SLagM_ops = empty_operators\<rparr>
   \<and> SpectralLagrangeModel_EC_init (Inr linear_basis) 2 ''cathode'' (- 5) = Inl ValueError"
  using order_is_not_validated [of "''cathode''" "- 5" linear_basis 2]
  by simp

text \<open>
  The order \<open>-1\<close> is accepted silently: the SEI model is constructed, and so is its
  spectral model at setup, with operators that have no entries.
\<close>

theorem order_is_not_validated_counterexample:
  "(- 1 :: int) < 0
   \<and> SEI_init ''anode'' (- 1) = Inr \<lparr>SEI_domain = CHR ''a'', SEI_tag = ''anode'',
        SEI_order = - 1, SEI_SEI = None\<rparr>
   \<and> SpectralLagrangeModel_EC_init (Inr empty_basis) 1 ''anode'' (- 1) =
        Inr \<lparr>SLagM_domain = CHR ''a'', SLagM_tag = ''anode'', SLagM_order = - 1,
             SLagM_n_mat = 1, SLagM_poly = empty_basis, SLagM_ops = empty_operators\<rparr>
   \<and> SEI_setup \<lparr>SEI_domain = CHR ''a'', SEI_tag = ''anode'', SEI_order = - 1, SEI_SEI = None\<rparr>
        unit_SEI [unit_material] (Inr empty_basis) =
        Inr (\<lparr>SEI_domain = CHR ''a'', SEI_tag = ''anode'', SEI_order = - 1,
               SEI_SEI = Some unit_SEI\<rparr>,
             \<lparr>SLagM_domain = CHR ''a'', SLagM_tag = ''anode'', SLagM_order = - 1,
               SLagM_n_mat = 1, SLagM_poly = empty_basis, SLagM_ops = empty_operators\<rparr>)"
  by (simp add: SEI_init_def SEI_setup_def SpectralLagrangeModel_EC_init_def build_matrix_def
      bindE_def empty_operators_def drop_last_column_def mat_add_def mat_sub_def zeros_def)

end
